theory Spec2Isabelle
  imports Complex_Main "HOL-Library.Word"
begin

section \<open>Host values: pointers, tensors, errors\<close>

text \<open>
  The source is \<^verbatim>\<open>aten/src/ATen/native/cuda/kernels.cpp\<close>: the struct
  \<^verbatim>\<open>CusparseLtLinear\<close> with its methods \<^verbatim>\<open>init\<close>, \<^verbatim>\<open>prune\<close>, \<^verbatim>\<open>compress\<close> and
  \<^verbatim>\<open>masked_mm\<close>, and the two macros \<^verbatim>\<open>CHECK_CUDA\<close> and \<^verbatim>\<open>CHECK_CUSPARSE\<close>.

  Pointers are plain addresses, \<^verbatim>\<open>int64_t\<close> and \<^verbatim>\<open>size_t\<close> are 64-bit words (the
  products of the source wrap as word products do), \<^verbatim>\<open>int\<close> values and the status
  enumerations \<^verbatim>\<open>cudaError_t\<close> and \<^verbatim>\<open>cusparseStatus_t\<close> are integers.
\<close>

type_synonym addr = int
type_synonym int64_t = "64 word"
type_synonym size_t = "64 word"
type_synonym status = int

definition nullptr :: addr where
  "nullptr = 0"

definition cudaSuccess :: status where
  "cudaSuccess = 0"

definition CUSPARSE_STATUS_SUCCESS :: status where
  "CUSPARSE_STATUS_SUCCESS = 0"

definition sizeof_Half :: size_t where
  "sizeof_Half = 2"

definition sizeof_float :: size_t where
  "sizeof_float = 4"

definition sizeof_int :: size_t where
  "sizeof_int = 4"

definition sizeof_int64 :: size_t where
  "sizeof_int64 = 8"

definition sizeof_pointer :: size_t where
  "sizeof_pointer = 8"

datatype ScalarType = Half | Float | OtherScalarType

text \<open>
  Modelled from the spec: \<^verbatim>\<open>at::Tensor\<close> is declared outside the source file. The spec
  treats the tensor library as the supplier of "input buffers and dtype/shape metadata";
  a tensor is therefore its shape, its element type and the address of its buffer.
\<close>

record Tensor =
  sizes :: "int64_t list"
  dtype :: ScalarType
  data :: addr

text \<open>
  The failures of the spec's taxonomy (section 7), with the payload the source puts in
  the message: the status for the two macros (the line number and the error string of
  their messages are determined by the call site and the status), the detected capability
  for the gate. The last three are the host-side failures of the tensor accessors and of
  \<^verbatim>\<open>new[]\<close>. No statement of the source produces \<open>ShapeMismatchError\<close>.
\<close>

datatype error =
    DeviceError status
  | LibraryError status
  | DeviceUnsupported int int
  | PruneValidationError
  | ShapeMismatchError
  | IndexError
  | ScalarTypeError
  | BadArrayNewLength

section \<open>The device and the accelerator library\<close>

datatype cusparseOperation_t =
    CUSPARSE_OPERATION_NON_TRANSPOSE
  | CUSPARSE_OPERATION_TRANSPOSE
  | CUSPARSE_OPERATION_CONJUGATE_TRANSPOSE

datatype cusparseOrder_t = CUSPARSE_ORDER_COL | CUSPARSE_ORDER_ROW

datatype cudaDataType = CUDA_R_16F

datatype cusparseComputeType = CUSPARSE_COMPUTE_16F

datatype cusparseLtSparsity_t = CUSPARSELT_SPARSITY_50_PERCENT

datatype cusparseLtMatmulAlg_t = CUSPARSELT_MATMUL_ALG_DEFAULT

datatype cusparseLtPruneAlg_t = CUSPARSELT_PRUNE_SPMMA_TILE | CUSPARSELT_PRUNE_SPMMA_STRIP

datatype cudaDeviceAttr =
    cudaDevAttrComputeCapabilityMajor
  | cudaDevAttrComputeCapabilityMinor

datatype cudaMemcpyKind = cudaMemcpyHostToDevice | cudaMemcpyDeviceToHost

datatype cusparseLtMatDescAttribute_t =
    CUSPARSELT_MAT_NUM_BATCHES
  | CUSPARSELT_MAT_BATCH_STRIDE

datatype cusparseLtMatmulDescAttribute_t = CUSPARSELT_MATMUL_BIAS_POINTER

datatype cusparseLtMatmulAlgAttribute_t = CUSPARSELT_MATMUL_ALG_CONFIG_ID

text \<open>The three matrix descriptors of \<^verbatim>\<open>init\<close>, by the name of the variable.\<close>

datatype descriptor = weight_descriptor | activation_descriptor | matC

text \<open>
  The two ends of a \<^verbatim>\<open>cudaMemcpy\<close>: an address held in a pointer variable, the
  zero-filled host array \<^verbatim>\<open>new __half[C_size]()\<close>, or the local \<^verbatim>\<open>h_is_valid\<close>.
\<close>

datatype pointer = Ptr addr | New_half_array int64_t | Addr_of_h_is_valid

text \<open>
  One constructor per function of the device API and of the library that the source
  calls, with the arguments the source passes (the handle, the plan and the matmul and
  algorithm-selection records are the same variables at every call and are left out).
\<close>

datatype call =
    cudaDeviceGetAttribute cudaDeviceAttr int
  | cudaMalloc size_t
  | cudaMemcpy pointer pointer size_t cudaMemcpyKind
  | cudaFree addr
  | cusparseLtInit
  | cusparseLtStructuredDescriptorInit descriptor int64_t int64_t int64_t nat
      cudaDataType cusparseOrder_t cusparseLtSparsity_t
  | cusparseLtDenseDescriptorInit descriptor int64_t int64_t int64_t nat
      cudaDataType cusparseOrder_t
  | cusparseLtMatmulDescriptorInit cusparseOperation_t cusparseOperation_t
      descriptor descriptor descriptor descriptor cusparseComputeType
  | cusparseLtMatmulAlgSelectionInit cusparseLtMatmulAlg_t
  | cusparseLtMatDescSetAttribute descriptor cusparseLtMatDescAttribute_t int64_t size_t
  | cusparseLtMatmulDescSetAttribute cusparseLtMatmulDescAttribute_t addr size_t
  | cusparseLtMatmulAlgSetAttribute cusparseLtMatmulAlgAttribute_t int size_t
  | cusparseLtMatmulGetWorkspace
  | cusparseLtMatmulPlanInit size_t
  | cusparseLtSpMMAPrune2 descriptor int cusparseOperation_t addr addr
      cusparseLtPruneAlg_t addr
  | cusparseLtSpMMAPruneCheck2 descriptor int cusparseOperation_t addr addr addr
  | cusparseLtSpMMACompressedSize2 descriptor
  | cusparseLtSpMMACompress2 descriptor bool cusparseOperation_t addr addr addr
  | cusparseLtMatmul real addr addr real addr addr addr addr int

text \<open>
  The device answers from a table of replies: the \<open>i\<close>-th call made on it returns the
  status \<open>fst (reply i)\<close> and leaves \<open>snd (reply i)\<close> in its out-parameter (the
  attribute value, the allocated pointer, the copied flag, the reported size). For a call
  that fails this is whatever the variable holds afterwards, for one without an
  out-parameter it is ignored. \<open>calls\<close> is the history of the calls made, \<open>live\<close> the
  device buffers allocated and not yet freed: a \<^verbatim>\<open>cudaMalloc\<close> that returns
  \<^verbatim>\<open>cudaSuccess\<close> adds its pointer, a \<^verbatim>\<open>cudaFree\<close> that returns \<^verbatim>\<open>cudaSuccess\<close> removes
  its argument.
\<close>

record device =
  reply :: "nat \<Rightarrow> status \<times> int"
  calls :: "call list"
  live :: "addr list"

fun effect :: "call \<Rightarrow> status \<times> int \<Rightarrow> addr list \<Rightarrow> addr list" where
  "effect (cudaMalloc n) r l = (if fst r = cudaSuccess then l @ [snd r] else l)"
| "effect (cudaFree p) r l = (if fst r = cudaSuccess then remove1 p l else l)"
| "effect c r l = l"

section \<open>The session and its methods\<close>

text \<open>
  The members of \<^verbatim>\<open>struct CusparseLtLinear\<close>. The handle, the weight descriptor and
  the plan are opaque records that only the library reads and writes; what happens to
  them is the history of library calls.
\<close>

record session =
  weight :: Tensor
  stream :: addr
  num_batches :: int64_t
  op_weight :: cusparseOperation_t
  op_activation :: cusparseOperation_t
  dA :: addr
  dB :: addr
  dC :: addr
  dD :: addr
  dA_compressed :: addr
  d_valid :: addr

record state =
  self :: session
  dev :: device

text \<open>
  A method runs on the state and either returns or throws; what it wrote before it threw
  stays written.
\<close>

type_synonym 'a prog = "state \<Rightarrow> (error + 'a) \<times> state"

definition return :: "'a \<Rightarrow> 'a prog" where
  "return x s = (Inr x, s)"

definition raise :: "error \<Rightarrow> 'a prog" where
  "raise e s = (Inl e, s)"

definition bind_p :: "'a prog \<Rightarrow> ('a \<Rightarrow> 'b prog) \<Rightarrow> 'b prog" where
  "bind_p m f s = (case m s of (Inl e, s') \<Rightarrow> (Inl e, s') | (Inr x, s') \<Rightarrow> f x s')"

definition lift :: "error + 'a \<Rightarrow> 'a prog" where
  "lift r = (case r of Inl e \<Rightarrow> raise e | Inr x \<Rightarrow> return x)"

definition member :: "(session \<Rightarrow> 'a) \<Rightarrow> 'a prog" where
  "member f s = (Inr (f (self s)), s)"

text \<open>A call on the device: the table answers, the history and the live buffers change.\<close>

definition invoke :: "call \<Rightarrow> (status \<times> int) prog" where
  "invoke c s =
     (let d = dev s; r = reply d (length (calls d))
      in (Inr r, s\<lparr>dev := d\<lparr>calls := calls d @ [c], live := effect c r (live d)\<rparr>\<rparr>))"

text \<open>A call whose out-parameter is a member of the session: the member is written.\<close>

definition invoke_into :: "(addr \<Rightarrow> session \<Rightarrow> session) \<Rightarrow> call \<Rightarrow> (status \<times> int) prog" where
  "invoke_into upd c =
     bind_p (invoke c) (\<lambda>r s. (Inr r, s\<lparr>self := upd (snd r) (self s)\<rparr>))"

text \<open>
  Modelled from the spec: the macro \<^verbatim>\<open>TORCH_CHECK\<close> is defined outside the source file.
  The spec's prune contract "fails with \<^verbatim>\<open>PruneValidationError\<close> if the flag is nonzero"
  is the statement \<^verbatim>\<open>TORCH_CHECK(h_is_valid == 0, ...)\<close> of the source, so the macro
  throws the described failure when its condition is false and does nothing otherwise.
\<close>

definition TORCH_CHECK :: "bool \<Rightarrow> error \<Rightarrow> unit prog" where
  "TORCH_CHECK cond e = (if cond then return () else raise e)"

text \<open>
  The two macros of the source, lines 13 to 30: the status of the wrapped call is handed
  to \<^verbatim>\<open>TORCH_CHECK\<close> with the condition \<^verbatim>\<open>status != cudaSuccess\<close>, respectively
  \<^verbatim>\<open>status != CUSPARSE_STATUS_SUCCESS\<close>. The value of the out-parameter is passed on.
\<close>

definition CHECK_CUDA :: "(status \<times> int) prog \<Rightarrow> int prog" where
  "CHECK_CUDA func =
     bind_p func (\<lambda>(status, out).
     bind_p (TORCH_CHECK (status \<noteq> cudaSuccess) (DeviceError status)) (\<lambda>_.
     return out))"

definition CHECK_CUSPARSE :: "(status \<times> int) prog \<Rightarrow> int prog" where
  "CHECK_CUSPARSE func =
     bind_p func (\<lambda>(status, out).
     bind_p (TORCH_CHECK (status \<noteq> CUSPARSE_STATUS_SUCCESS) (LibraryError status)) (\<lambda>_.
     return out))"

text \<open>
  Modelled from the spec: the accessors of \<^verbatim>\<open>at::Tensor\<close> are defined outside the source
  file. \<^verbatim>\<open>size(d)\<close> is the \<open>d\<close>-th entry of the shape and fails when the tensor has no
  such dimension; \<^verbatim>\<open>data_ptr<T>()\<close> is the buffer and fails when the element type is not
  \<^verbatim>\<open>T\<close> (the spec: "mismatched precision ... the core does not convert").
\<close>

definition Tensor_size :: "Tensor \<Rightarrow> nat \<Rightarrow> error + int64_t" where
  "Tensor_size t d = (if d < length (sizes t) then Inr (sizes t ! d) else Inl IndexError)"

definition data_ptr :: "ScalarType \<Rightarrow> Tensor \<Rightarrow> error + addr" where
  "data_ptr T t = (if dtype t = T then Inr (data t) else Inl ScalarTypeError)"

text \<open>
  \<^verbatim>\<open>new __half[C_size]()\<close> throws \<^verbatim>\<open>std::bad_array_new_length\<close> when the element count
  is negative and when the array would be larger than the implementation allows, which is
  \<^verbatim>\<open>PTRDIFF_MAX\<close> bytes: with two bytes to the element, from \<open>2 ^ 62\<close> elements on.
  (That the host runs out of memory for a smaller array is not modelled.)
\<close>

definition PTRDIFF_MAX :: int where
  "PTRDIFF_MAX = 2 ^ 63 - 1"

definition new_half_array :: "int64_t \<Rightarrow> error + pointer" where
  "new_half_array n =
     (if sint n < 0 \<or> PTRDIFF_MAX < sint n * uint sizeof_Half then Inl BadArrayNewLength
      else Inr (New_half_array n))"

subsection \<open>The constructor and the implicit destructor\<close>

text \<open>
  The two-argument constructor, lines 50 to 54. It initialises five members; the pointer
  members keep whatever the storage held, which the argument \<open>uninit\<close> supplies. (The
  default constructor of lines 47 to 49 differs in leaving \<^verbatim>\<open>weight\<close> an undefined tensor
  and setting the batch count to 1.)
\<close>

definition CusparseLtLinear :: "Tensor \<Rightarrow> int64_t \<Rightarrow> session \<Rightarrow> session" where
  "CusparseLtLinear w n uninit =
     uninit\<lparr>weight := w, stream := nullptr, num_batches := n,
       op_weight := CUSPARSE_OPERATION_NON_TRANSPOSE,
       op_activation := CUSPARSE_OPERATION_NON_TRANSPOSE\<rparr>"

text \<open>
  The struct declares no destructor, and no method of the source calls a destroy function
  of the library. Destroying the session runs the destructors of its members, of which
  only \<^verbatim>\<open>weight\<close> has one (it drops a reference to the host tensor): the device is left
  as it is.
\<close>

definition destroy :: "state \<Rightarrow> device" where
  "destroy s = dev s"

subsection \<open>Dimensions and layout: lines 83 to 112 of \<^verbatim>\<open>init\<close>\<close>

definition matrix_order :: cusparseOrder_t where
  "matrix_order = CUSPARSE_ORDER_ROW"

definition matrix_type :: cudaDataType where
  "matrix_type = CUDA_R_16F"

definition compute_type :: cusparseComputeType where
  "compute_type = CUSPARSE_COMPUTE_16F"

record layout =
  batch_strideA :: int64_t
  batch_strideB :: int64_t
  batch_strideC :: int64_t
  num_A_rows :: int64_t
  num_A_cols :: int64_t
  num_B_rows :: int64_t
  num_B_cols :: int64_t
  num_C_rows :: int64_t
  num_C_cols :: int64_t
  alignment :: nat
  lda :: int64_t
  ldb :: int64_t
  ldc :: int64_t
  C_size :: int64_t
  A_size_bytes :: size_t
  B_size_bytes :: size_t
  C_size_bytes :: size_t

definition init_layout ::
  "int64_t \<Rightarrow> int64_t \<Rightarrow> int64_t \<Rightarrow> int64_t \<Rightarrow> cusparseOperation_t \<Rightarrow> cusparseOperation_t
     \<Rightarrow> layout" where
  "init_layout m k n nb opw opa =
     (let strideA = m * k;
          strideB = k * n;
          strideC = m * n;
          is_rowmajor = (matrix_order = CUSPARSE_ORDER_ROW);
          isA_transposed = (opw \<noteq> CUSPARSE_OPERATION_NON_TRANSPOSE);
          isB_transposed = (opa \<noteq> CUSPARSE_OPERATION_NON_TRANSPOSE);
          A_rows = (if isA_transposed then k else m);
          A_cols = (if isA_transposed then m else k);
          B_rows = (if isB_transposed then n else k);
          B_cols = (if isB_transposed then k else n);
          C_rows = m;
          C_cols = n
      in \<lparr>batch_strideA = strideA, batch_strideB = strideB, batch_strideC = strideC,
          num_A_rows = A_rows, num_A_cols = A_cols,
          num_B_rows = B_rows, num_B_cols = B_cols,
          num_C_rows = C_rows, num_C_cols = C_cols,
          alignment = 16,
          lda = (if is_rowmajor then A_cols else A_rows),
          ldb = (if is_rowmajor then B_cols else B_rows),
          ldc = (if is_rowmajor then C_cols else C_rows),
          C_size = nb * strideC,
          A_size_bytes = nb * strideA * sizeof_Half,
          B_size_bytes = nb * strideB * sizeof_Half,
          C_size_bytes = nb * strideC * sizeof_Half\<rparr>)"

subsection \<open>\<^verbatim>\<open>init\<close>, lines 66 to 204\<close>

text \<open>
  The check of lines 73 to 76, named so that it can be run on its own: the
  \<^verbatim>\<open>TORCH_CHECK\<close> whose message is "cusparseLt is supported only on GPU devices with
  compute capability == 8.0, 8.6 current: " followed by the detected capability.
\<close>

definition capability_gate :: "int \<Rightarrow> int \<Rightarrow> unit prog" where
  "capability_gate major_cc minor_cc =
     TORCH_CHECK (\<not> (major_cc = 8 \<and> minor_cc = 0) \<and> \<not> (major_cc = 8 \<and> minor_cc = 6))
       (DeviceUnsupported major_cc minor_cc)"

definition init :: "int64_t \<Rightarrow> Tensor \<Rightarrow> Tensor \<Rightarrow> Tensor \<Rightarrow> unit prog" where
  "init gpu_index activation res bias =
     bind_p (CHECK_CUDA (invoke (cudaDeviceGetAttribute cudaDevAttrComputeCapabilityMajor 0)))
       (\<lambda>major_cc.
     bind_p (CHECK_CUDA (invoke (cudaDeviceGetAttribute cudaDevAttrComputeCapabilityMinor 0)))
       (\<lambda>minor_cc.
     bind_p (capability_gate major_cc minor_cc) (\<lambda>_.
     bind_p (member weight) (\<lambda>w.
     bind_p (lift (Tensor_size w 0)) (\<lambda>m.
     bind_p (lift (Tensor_size w 1)) (\<lambda>k.
     bind_p (lift (Tensor_size activation 0)) (\<lambda>n.
     bind_p (member num_batches) (\<lambda>nb.
     bind_p (member op_weight) (\<lambda>opw.
     bind_p (member op_activation) (\<lambda>opa.
     let L = init_layout m k n nb opw opa in
     bind_p (lift (data_ptr Half w)) (\<lambda>hA.
     bind_p (lift (data_ptr Half activation)) (\<lambda>hB.
     bind_p (lift (new_half_array (C_size L))) (\<lambda>hC.
     bind_p (CHECK_CUDA (invoke_into (\<lambda>p x. x\<lparr>dA := p\<rparr>) (cudaMalloc (A_size_bytes L)))) (\<lambda>_.
     bind_p (CHECK_CUDA (invoke_into (\<lambda>p x. x\<lparr>dB := p\<rparr>) (cudaMalloc (B_size_bytes L)))) (\<lambda>_.
     bind_p (CHECK_CUDA (invoke_into (\<lambda>p x. x\<lparr>dC := p\<rparr>) (cudaMalloc (C_size_bytes L)))) (\<lambda>_.
     bind_p (CHECK_CUDA (invoke_into (\<lambda>p x. x\<lparr>d_valid := p\<rparr>) (cudaMalloc sizeof_pointer)))
       (\<lambda>_.
     bind_p (lift (data_ptr Half res)) (\<lambda>hD.
     bind_p (\<lambda>s. (Inr (), s\<lparr>self := (self s)\<lparr>dD := hD\<rparr>\<rparr>)) (\<lambda>_.
     bind_p (member dA) (\<lambda>dA_now.
     bind_p (CHECK_CUDA (invoke (cudaMemcpy (Ptr dA_now) (Ptr hA) (A_size_bytes L)
       cudaMemcpyHostToDevice))) (\<lambda>_.
     bind_p (member dB) (\<lambda>dB_now.
     bind_p (CHECK_CUDA (invoke (cudaMemcpy (Ptr dB_now) (Ptr hB) (B_size_bytes L)
       cudaMemcpyHostToDevice))) (\<lambda>_.
     bind_p (member dC) (\<lambda>dC_now.
     bind_p (CHECK_CUDA (invoke (cudaMemcpy (Ptr dC_now) hC (C_size_bytes L)
       cudaMemcpyHostToDevice))) (\<lambda>_.
     bind_p (CHECK_CUSPARSE (invoke cusparseLtInit)) (\<lambda>_.
     bind_p (CHECK_CUSPARSE (invoke (cusparseLtStructuredDescriptorInit weight_descriptor
       (num_A_rows L) (num_A_cols L) (lda L) (alignment L) matrix_type matrix_order
       CUSPARSELT_SPARSITY_50_PERCENT))) (\<lambda>_.
     bind_p (CHECK_CUSPARSE (invoke (cusparseLtDenseDescriptorInit activation_descriptor
       (num_B_rows L) (num_B_cols L) (ldb L) (alignment L) matrix_type matrix_order))) (\<lambda>_.
     bind_p (CHECK_CUSPARSE (invoke (cusparseLtDenseDescriptorInit matC
       (num_C_rows L) (num_C_cols L) (ldc L) (alignment L) matrix_type matrix_order))) (\<lambda>_.
     bind_p (CHECK_CUSPARSE (invoke (cusparseLtMatmulDescriptorInit opw opa
       weight_descriptor activation_descriptor matC matC compute_type))) (\<lambda>_.
     bind_p (CHECK_CUSPARSE (invoke (cusparseLtMatmulAlgSelectionInit
       CUSPARSELT_MATMUL_ALG_DEFAULT))) (\<lambda>_.
     bind_p (CHECK_CUSPARSE (invoke (cusparseLtMatDescSetAttribute weight_descriptor
       CUSPARSELT_MAT_NUM_BATCHES nb sizeof_int))) (\<lambda>_.
     bind_p (CHECK_CUSPARSE (invoke (cusparseLtMatDescSetAttribute activation_descriptor
       CUSPARSELT_MAT_NUM_BATCHES nb sizeof_int64))) (\<lambda>_.
     bind_p (CHECK_CUSPARSE (invoke (cusparseLtMatDescSetAttribute matC
       CUSPARSELT_MAT_NUM_BATCHES nb sizeof_int64))) (\<lambda>_.
     bind_p (CHECK_CUSPARSE (invoke (cusparseLtMatDescSetAttribute weight_descriptor
       CUSPARSELT_MAT_BATCH_STRIDE (batch_strideA L) sizeof_int64))) (\<lambda>_.
     bind_p (CHECK_CUSPARSE (invoke (cusparseLtMatDescSetAttribute activation_descriptor
       CUSPARSELT_MAT_BATCH_STRIDE (batch_strideB L) sizeof_int64))) (\<lambda>_.
     bind_p (CHECK_CUSPARSE (invoke (cusparseLtMatDescSetAttribute matC
       CUSPARSELT_MAT_BATCH_STRIDE (batch_strideC L) sizeof_int64))) (\<lambda>_.
     bind_p (CHECK_CUSPARSE (invoke (cusparseLtMatmulDescriptorInit opw opa
       weight_descriptor activation_descriptor matC matC compute_type))) (\<lambda>_.
     bind_p (lift (data_ptr Float bias)) (\<lambda>hBias.
     bind_p (CHECK_CUDA (invoke (cudaMalloc (m * sizeof_float)))) (\<lambda>dBias.
     bind_p (CHECK_CUDA (invoke (cudaMemcpy (Ptr dBias) (Ptr hBias) (m * sizeof_float)
       cudaMemcpyHostToDevice))) (\<lambda>_.
     bind_p (CHECK_CUSPARSE (invoke (cusparseLtMatmulDescSetAttribute
       CUSPARSELT_MATMUL_BIAS_POINTER dBias sizeof_pointer))) (\<lambda>_.
     bind_p (CHECK_CUSPARSE (invoke (cusparseLtMatmulAlgSetAttribute
       CUSPARSELT_MATMUL_ALG_CONFIG_ID 0 sizeof_int))) (\<lambda>_.
     bind_p (CHECK_CUSPARSE (invoke cusparseLtMatmulGetWorkspace)) (\<lambda>workspace_size.
     bind_p (CHECK_CUSPARSE (invoke (cusparseLtMatmulPlanInit (word_of_int workspace_size))))
       (\<lambda>_.
     return ())))))))))))))))))))))))))))))))))))))))))))))"

subsection \<open>\<^verbatim>\<open>prune\<close>, lines 207 to 225\<close>

definition prune :: "unit prog" where
  "prune =
     bind_p (member op_weight) (\<lambda>opw.
     bind_p (member dA) (\<lambda>dA_now.
     bind_p (member stream) (\<lambda>strm.
     bind_p (CHECK_CUSPARSE (invoke (cusparseLtSpMMAPrune2 weight_descriptor 1 opw
       dA_now dA_now CUSPARSELT_PRUNE_SPMMA_STRIP strm))) (\<lambda>_.
     bind_p (CHECK_CUDA (invoke (cudaMalloc sizeof_int))) (\<lambda>is_valid.
     bind_p (CHECK_CUSPARSE (invoke (cusparseLtSpMMAPruneCheck2 weight_descriptor 1 opw
       dA_now is_valid strm))) (\<lambda>_.
     bind_p (CHECK_CUDA (invoke (cudaMemcpy Addr_of_h_is_valid (Ptr is_valid) sizeof_int
       cudaMemcpyDeviceToHost))) (\<lambda>h_is_valid.
     bind_p (CHECK_CUDA (invoke (cudaFree is_valid))) (\<lambda>_.
     TORCH_CHECK (h_is_valid = 0) PruneValidationError))))))))"

subsection \<open>\<^verbatim>\<open>compress\<close>, lines 227 to 237\<close>

definition compress :: "unit prog" where
  "compress =
     bind_p (CHECK_CUSPARSE (invoke (cusparseLtSpMMACompressedSize2 weight_descriptor)))
       (\<lambda>compressed_size.
     bind_p (CHECK_CUDA (invoke_into (\<lambda>p x. x\<lparr>dA_compressed := p\<rparr>)
       (cudaMalloc (word_of_int compressed_size)))) (\<lambda>_.
     bind_p (member op_weight) (\<lambda>opw.
     bind_p (member dA) (\<lambda>dA_now.
     bind_p (member dA_compressed) (\<lambda>dA_compressed_now.
     bind_p (member stream) (\<lambda>strm.
     bind_p (CHECK_CUSPARSE (invoke (cusparseLtSpMMACompress2 weight_descriptor True opw
       dA_now dA_compressed_now strm))) (\<lambda>_.
     return ())))))))"

subsection \<open>\<^verbatim>\<open>masked_mm\<close>, lines 240 to 262\<close>

definition masked_mm :: "unit prog" where
  "masked_mm =
     (let d_workspace = nullptr;
          num_streams = 0;
          streams = nullptr;
          alpha = 1;
          beta = 0
      in bind_p (member dA_compressed) (\<lambda>dA_compressed_now.
         bind_p (member dB) (\<lambda>dB_now.
         bind_p (member dC) (\<lambda>dC_now.
         bind_p (member dD) (\<lambda>dD_now.
         bind_p (CHECK_CUSPARSE (invoke (cusparseLtMatmul alpha dA_compressed_now dB_now beta
           dC_now dD_now d_workspace streams num_streams))) (\<lambda>_.
         return ()))))))"

section \<open>Vocabulary of the properties\<close>

fun is_cudaMalloc :: "call \<Rightarrow> bool" where
  "is_cudaMalloc (cudaMalloc n) = True"
| "is_cudaMalloc c = False"

fun is_cudaFree :: "call \<Rightarrow> bool" where
  "is_cudaFree (cudaFree p) = True"
| "is_cudaFree c = False"

fun is_descriptor_init :: "call \<Rightarrow> bool" where
  "is_descriptor_init (cusparseLtStructuredDescriptorInit d r c l a t ord sp) = True"
| "is_descriptor_init (cusparseLtDenseDescriptorInit d r c l a t ord) = True"
| "is_descriptor_init (cusparseLtMatmulDescriptorInit oa ob d1 d2 d3 d4 ct) = True"
| "is_descriptor_init c = False"

text \<open>The calls made from the \<open>n\<close>-th on: what a method has added to the history.\<close>

definition calls_since :: "nat \<Rightarrow> state \<Rightarrow> call list" where
  "calls_since n s = drop n (calls (dev s))"

text \<open>
  The pointers that the calls of \<^verbatim>\<open>cudaMalloc\<close> from the \<open>n\<close>-th call on returned
  with \<^verbatim>\<open>cudaSuccess\<close>, in the order of the calls.
\<close>

definition allocated_since :: "nat \<Rightarrow> device \<Rightarrow> addr list" where
  "allocated_since n d =
     map (\<lambda>i. snd (reply d i))
       (filter (\<lambda>i. is_cudaMalloc (calls d ! i) \<and> fst (reply d i) = cudaSuccess)
          [n..<length (calls d)])"

text \<open>A program keeps an invariant of the state, whether it returns or throws.\<close>

definition preserves :: "(state \<Rightarrow> bool) \<Rightarrow> 'a prog \<Rightarrow> bool" where
  "preserves I m = (\<forall>s. I s \<longrightarrow> I (snd (m s)))"


text \<open>
  Since the device was \<open>d0\<close> the table of replies is the same and every call added to
  the history satisfies \<open>Q\<close>.
\<close>

definition since :: "device \<Rightarrow> (call \<Rightarrow> bool) \<Rightarrow> state \<Rightarrow> bool" where
  "since d0 Q s =
     (reply (dev s) = reply d0 \<and> (\<exists>tr. calls (dev s) = calls d0 @ tr \<and> (\<forall>c\<in>set tr. Q c)))"

text \<open>
  Since the \<open>n\<close>-th call nothing was freed: the live buffers are those of \<open>l0\<close> and
  every buffer allocated since.
\<close>

definition leaks :: "nat \<Rightarrow> addr list \<Rightarrow> state \<Rightarrow> bool" where
  "leaks n l0 s = (n \<le> length (calls (dev s)) \<and> live (dev s) = l0 @ allocated_since n (dev s))"

text \<open>
  The weakest precondition of a program: when it returns, \<open>Q\<close> holds of the value and
  of the state it leaves; when it throws, \<open>E\<close> holds of the failure.
\<close>

definition wp :: "'a prog \<Rightarrow> ('a \<Rightarrow> state \<Rightarrow> bool) \<Rightarrow> (error \<Rightarrow> bool) \<Rightarrow> state \<Rightarrow> bool" where
  "wp m Q E s = (case fst (m s) of Inl e \<Rightarrow> E e | Inr x \<Rightarrow> Q x (snd (m s)))"





subsection \<open>Concrete inputs\<close>

text \<open>
  A 2 x 3 weight, an activation of shape 5 x 4 (neither of its dimensions is the
  weight's column count 3), an output tensor and a bias of two floats.
\<close>

definition ex_weight :: Tensor where
  "ex_weight = \<lparr>sizes = [2, 3], dtype = Half, data = 100\<rparr>"

definition ex_activation :: Tensor where
  "ex_activation = \<lparr>sizes = [5, 4], dtype = Half, data = 200\<rparr>"

definition ex_res :: Tensor where
  "ex_res = \<lparr>sizes = [2, 5], dtype = Half, data = 300\<rparr>"

definition ex_bias :: Tensor where
  "ex_bias = \<lparr>sizes = [2], dtype = Float, data = 400\<rparr>"

definition ex_uninit :: session where
  "ex_uninit = \<lparr>weight = ex_weight, stream = 0, num_batches = 0,
     op_weight = CUSPARSE_OPERATION_NON_TRANSPOSE,
     op_activation = CUSPARSE_OPERATION_NON_TRANSPOSE,
     dA = 0, dB = 0, dC = 0, dD = 0, dA_compressed = 0, d_valid = 0\<rparr>"

text \<open>A device whose first \<open>n\<close> calls are answered \<open>r1\<close> and all later ones \<open>r2\<close>.\<close>

definition reply_after :: "nat \<Rightarrow> status \<times> int \<Rightarrow> status \<times> int \<Rightarrow> nat \<Rightarrow> status \<times> int" where
  "reply_after n r1 r2 i = (if i < n then r1 else r2)"

text \<open>A freshly constructed session on a device with no history and no buffer.\<close>

definition start :: "(nat \<Rightarrow> status \<times> int) \<Rightarrow> state" where
  "start r = \<lparr>self = CusparseLtLinear ex_weight 1 ex_uninit,
     dev = \<lparr>reply = r, calls = [], live = []\<rparr>\<rparr>"

text \<open>
  A session whose buffer members are four distinct device buffers and the storage of the
  caller's output tensor, on a device that answers every call with success.
\<close>

definition ex_ready :: state where
  "ex_ready =
     \<lparr>self = (CusparseLtLinear ex_weight 1 ex_uninit)\<lparr>dA := 4096, dB := 8192, dC := 12288,
        dD := data ex_res, dA_compressed := 16384\<rparr>,
      dev = \<lparr>reply = reply_after 0 (0, 0) (0, 0), calls = [],
        live = [4096, 8192, 12288, 16384]\<rparr>\<rparr>"

text \<open>
  The state \<^verbatim>\<open>init\<close> leaves when the two capability queries and the first three
  allocations return an error status and the allocation of \<^verbatim>\<open>d_valid\<close> succeeds.
\<close>

definition ex_leak :: state where
  "ex_leak =
     snd (init 0 ex_activation ex_res ex_bias (start (reply_after 5 (1, 0) (cudaSuccess, 4096))))"

text \<open>
  The end-to-end scenario of the spec: a weight of shape 128 x 256, an activation of shape
  256 x 64, an output tensor of shape 128 x 64, a bias of 128 floats, one batch.
\<close>

definition spec_weight :: Tensor where
  "spec_weight = \<lparr>sizes = [128, 256], dtype = Half, data = 100\<rparr>"

definition spec_activation :: Tensor where
  "spec_activation = \<lparr>sizes = [256, 64], dtype = Half, data = 200\<rparr>"

definition spec_res :: Tensor where
  "spec_res = \<lparr>sizes = [128, 64], dtype = Half, data = 300\<rparr>"

definition spec_bias :: Tensor where
  "spec_bias = \<lparr>sizes = [128], dtype = Float, data = 400\<rparr>"

definition spec_start :: "(nat \<Rightarrow> status \<times> int) \<Rightarrow> state" where
  "spec_start r = \<lparr>self = CusparseLtLinear spec_weight 1 ex_uninit,
     dev = \<lparr>reply = r, calls = [], live = []\<rparr>\<rparr>"

section \<open>Reasoning about programs\<close>

lemmas prog_defs = bind_p_def return_def raise_def lift_def member_def invoke_def invoke_into_def
  TORCH_CHECK_def CHECK_CUDA_def CHECK_CUSPARSE_def capability_gate_def
  cudaSuccess_def CUSPARSE_STATUS_SUCCESS_def Let_def

lemmas ex_defs = start_def reply_after_def CusparseLtLinear_def ex_weight_def ex_activation_def
  ex_res_def ex_bias_def ex_uninit_def Tensor_size_def data_ptr_def new_half_array_def
  PTRDIFF_MAX_def sizeof_Half_def
  init_layout_def nullptr_def

lemma preserves_bind:
  "preserves I m \<Longrightarrow> (\<And>x. preserves I (f x)) \<Longrightarrow> preserves I (bind_p m f)"
  by (auto simp: preserves_def bind_p_def split: prod.splits sum.splits)

lemma preserves_pure:
  "preserves I (return x)" "preserves I (raise e)" "preserves I (lift r)" "preserves I (member g)"
  "preserves I (TORCH_CHECK c e)" "preserves I (capability_gate major_cc minor_cc)"
  by (auto simp: preserves_def prog_defs split: sum.splits)

lemma preserves_CHECK:
  "preserves I func \<Longrightarrow> preserves I (CHECK_CUDA func)"
  "preserves I func \<Longrightarrow> preserves I (CHECK_CUSPARSE func)"
  unfolding CHECK_CUDA_def CHECK_CUSPARSE_def
  by (auto intro!: preserves_bind preserves_pure simp: split_def)

lemma preserves_invoke_into:
  "preserves I (invoke c) \<Longrightarrow> (\<And>p s. I s \<Longrightarrow> I (s\<lparr>self := upd p (self s)\<rparr>))
     \<Longrightarrow> preserves I (invoke_into upd c)"
  unfolding invoke_into_def
  by (rule preserves_bind) (auto simp: preserves_def)

lemma preserves_assign:
  "(\<And>s. I s \<Longrightarrow> I (s\<lparr>self := g (self s)\<rparr>))
     \<Longrightarrow> preserves I (\<lambda>s. (Inr (), s\<lparr>self := g (self s)\<rparr>))"
  by (auto simp: preserves_def)







subsection \<open>The history of calls\<close>

lemma since_invoke: "Q c \<Longrightarrow> preserves (since d0 Q) (invoke c)"
  by (auto simp: preserves_def since_def invoke_def Let_def)

lemma since_self: "since d0 Q s \<Longrightarrow> since d0 Q (s\<lparr>self := x\<rparr>)"
  by (simp add: since_def)

lemma since_refl: "since (dev s) Q s"
  by (simp add: since_def)

lemmas since_rules = preserves_bind preserves_CHECK preserves_pure preserves_invoke_into
  preserves_assign since_invoke since_self

lemma init_since:
  "preserves (since d0 (\<lambda>c. \<forall>attr d. c = cudaDeviceGetAttribute attr d \<longrightarrow> d = 0))
     (init g a r b)"
  unfolding init_def Let_def
  by (intro since_rules) simp_all

text \<open>
  A program that starts with the two capability queries and the gate, whatever follows:
  the first query is always made; the second only if the first passed its check; anything
  after the second only if the gate passed.
\<close>

lemma gate_first:
  assumes rest: "\<And>M N d0. preserves (since d0 (\<lambda>c. True)) (K M N)"
  shows "\<exists>tr. calls (dev (snd (bind_p (CHECK_CUDA (invoke q1)) (\<lambda>M.
            bind_p (CHECK_CUDA (invoke q2)) (\<lambda>N.
            bind_p (capability_gate M N) (\<lambda>_. K M N))) s))) = calls (dev s) @ q1 # tr
     \<and> (tr = [] \<or> (\<exists>tr'. tr = q2 # tr' \<and> (tr' = [] \<or>
          fst (capability_gate (snd (reply (dev s) (length (calls (dev s)))))
             (snd (reply (dev s) (Suc (length (calls (dev s)))))) s) = Inr ())))"
proof -
  let ?n = "length (calls (dev s))"
  let ?M = "snd (reply (dev s) ?n)" and ?N = "snd (reply (dev s) (Suc ?n))"
  let ?s2 = "snd (invoke q2 (snd (invoke q1 s)))"
  have "since (dev ?s2) (\<lambda>c. True) (snd (K ?M ?N ?s2))"
    using rest [of "dev ?s2" ?M ?N] since_refl [of ?s2] by (simp add: preserves_def)
  then obtain tr' where "calls (dev (snd (K ?M ?N ?s2))) = calls (dev ?s2) @ tr'"
    by (auto simp: since_def)
  then show ?thesis
    by (simp add: prog_defs split_def)
qed

lemma init_shape:
  "\<exists>tr. calls (dev (snd (init g a r b s))) =
       calls (dev s) @ cudaDeviceGetAttribute cudaDevAttrComputeCapabilityMajor 0 # tr
     \<and> (tr = [] \<or> (\<exists>tr'. tr = cudaDeviceGetAttribute cudaDevAttrComputeCapabilityMinor 0 # tr'
       \<and> (tr' = [] \<or>
       fst (capability_gate (snd (reply (dev s) (length (calls (dev s)))))
             (snd (reply (dev s) (Suc (length (calls (dev s)))))) s) = Inr ())))"
  unfolding init_def Let_def
  by (rule gate_first) (intro since_rules, simp_all)

lemma queries_then_rest:
  fixes tr :: "call list"
  assumes shape: "tr = [] \<or> (\<exists>tr'. tr = q2 # tr' \<and> (tr' = [] \<or> pass))"
    and kind: "\<exists>c\<in>set (q1 # tr). is_cudaMalloc c \<or> is_descriptor_init c"
    and q: "\<not> is_cudaMalloc q1" "\<not> is_descriptor_init q1"
      "\<not> is_cudaMalloc q2" "\<not> is_descriptor_init q2"
  shows "take 2 (q1 # tr) = [q1, q2] \<and> pass"
proof -
  from shape consider "tr = []" | tr' where "tr = q2 # tr'" "tr' = []"
    | tr' where "tr = q2 # tr'" "tr' \<noteq> []" pass
    by blast
  then show ?thesis
  proof cases
    case 1
    with kind q show ?thesis by simp
  next
    case 2
    with kind q show ?thesis by simp
  next
    case 3
    then show ?thesis by simp
  qed
qed

subsection \<open>The live buffers\<close>

lemma effect_no_free:
  "\<not> is_cudaFree c \<Longrightarrow>
   effect c r l = l @ (if is_cudaMalloc c \<and> fst r = cudaSuccess then [snd r] else [])"
  by (cases c) simp_all

lemma allocated_since_snoc:
  assumes "n \<le> length (calls d)"
  shows "allocated_since n (d\<lparr>calls := calls d @ [c], live := l\<rparr>) =
     allocated_since n d @
       (if is_cudaMalloc c \<and> fst (reply d (length (calls d))) = cudaSuccess
        then [snd (reply d (length (calls d)))] else [])"
proof -
  have old: "filter (\<lambda>i. is_cudaMalloc ((calls d @ [c]) ! i) \<and> fst (reply d i) = cudaSuccess)
      [n..<length (calls d)] =
    filter (\<lambda>i. is_cudaMalloc (calls d ! i) \<and> fst (reply d i) = cudaSuccess)
      [n..<length (calls d)]"
    by (rule filter_cong) (simp_all add: nth_append)
  show ?thesis
    using assms by (simp add: allocated_since_def old)
qed

lemma leaks_invoke: "\<not> is_cudaFree c \<Longrightarrow> preserves (leaks n l0) (invoke c)"
  by (simp add: preserves_def leaks_def invoke_def Let_def allocated_since_snoc effect_no_free)

lemma leaks_self: "leaks n l0 s \<Longrightarrow> leaks n l0 (s\<lparr>self := x\<rparr>)"
  by (simp add: leaks_def)

lemma leaks_refl: "leaks (length (calls (dev s))) (live (dev s)) s"
  by (simp add: leaks_def allocated_since_def)

lemmas leaks_rules = preserves_bind preserves_CHECK preserves_pure preserves_invoke_into
  preserves_assign leaks_invoke leaks_self

lemma init_leaks: "preserves (leaks n l0) (init g a r b)"
  unfolding init_def Let_def
  by (intro leaks_rules) simp_all

lemma compress_leaks: "preserves (leaks n l0) compress"
  unfolding compress_def Let_def
  by (intro leaks_rules) simp_all

lemma masked_mm_leaks: "preserves (leaks n l0) masked_mm"
  unfolding masked_mm_def Let_def
  by (intro leaks_rules) simp_all

lemma leaks_keeps:
  assumes "preserves (leaks (length (calls (dev s))) (live (dev s))) m"
    and "x \<in> set (live (dev s))"
  shows "x \<in> set (live (dev (snd (m s))))"
  using assms leaks_refl [of s] by (auto simp: preserves_def leaks_def)

subsection \<open>\<^verbatim>\<open>prune\<close>, call by call\<close>

lemma prune_calls:
  "fst (prune s) = Inr () \<or> fst (prune s) = Inl PruneValidationError \<Longrightarrow>
   calls_since (length (calls (dev s))) (snd (prune s)) =
     [cusparseLtSpMMAPrune2 weight_descriptor 1 (op_weight (self s)) (dA (self s)) (dA (self s))
        CUSPARSELT_PRUNE_SPMMA_STRIP (stream (self s)),
      cudaMalloc sizeof_int,
      cusparseLtSpMMAPruneCheck2 weight_descriptor 1 (op_weight (self s)) (dA (self s))
        (snd (reply (dev s) (Suc (length (calls (dev s)))))) (stream (self s)),
      cudaMemcpy Addr_of_h_is_valid (Ptr (snd (reply (dev s) (Suc (length (calls (dev s)))))))
        sizeof_int cudaMemcpyDeviceToHost,
      cudaFree (snd (reply (dev s) (Suc (length (calls (dev s))))))]"
  by (simp add: prune_def prog_defs split_def calls_since_def split: if_splits)

lemma prune_keeps:
  "x \<in> set (live (dev s)) \<Longrightarrow> x \<noteq> snd (reply (dev s) (Suc (length (calls (dev s))))) \<Longrightarrow>
   x \<in> set (live (dev (snd (prune s))))"
  by (simp add: prune_def prog_defs split_def)

text \<open>
  When the pruning call returns an error status and the allocation of \<^verbatim>\<open>is_valid\<close>
  succeeds, the macro throws on the success and the buffer stays allocated.
\<close>

lemma prune_leaks_is_valid:
  "fst (prune (start (reply_after 1 (1, 0) (cudaSuccess, 4096)))) = Inl (DeviceError cudaSuccess)
   \<and> live (dev (snd (prune (start (reply_after 1 (1, 0) (cudaSuccess, 4096)))))) = [4096]"
  by (simp add: prune_def prog_defs ex_defs split_def)

text \<open>
  The last statement of \<^verbatim>\<open>prune\<close> tests the flag the right way round: on a run in which
  none of the five wrapped calls makes its macro throw, that is, in which every one of
  them returns an error status, \<^verbatim>\<open>prune\<close> fails exactly when the flag is not zero.
\<close>

lemma prune_flag_test:
  "\<forall>i. fst (reply (dev s) i) \<noteq> 0 \<Longrightarrow>
   fst (prune s) =
     (if snd (reply (dev s) (length (calls (dev s)) + 3)) = 0 then Inr ()
      else Inl PruneValidationError)"
  by (simp add: prune_def prog_defs split_def eval_nat_numeral)

lemma ex_leak_eq:
  "ex_leak = \<lparr>self = (CusparseLtLinear ex_weight 1 ex_uninit)\<lparr>d_valid := 4096\<rparr>,
     dev = \<lparr>reply = reply_after 5 (1, 0) (cudaSuccess, 4096),
       calls = [cudaDeviceGetAttribute cudaDevAttrComputeCapabilityMajor 0,
         cudaDeviceGetAttribute cudaDevAttrComputeCapabilityMinor 0,
         cudaMalloc 12, cudaMalloc 30, cudaMalloc 20, cudaMalloc 8],
       live = [4096]\<rparr>\<rparr>"
  by (simp add: ex_leak_def init_def prog_defs ex_defs split_def sizeof_pointer_def
      sizeof_Half_def)

subsection \<open>A whole run of \<^verbatim>\<open>init\<close>\<close>

text \<open>
  The only runs of \<^verbatim>\<open>init\<close> that return normally are those in which every call returns
  an error status. On the 2 x 3 weight and the 5 x 4 activation (so \<open>m = 2\<close>, \<open>k = 3\<close>,
  \<open>n = 5\<close>) with a batch count of 1, these are the calls made, with the dimensions,
  leading dimensions, strides and byte counts of the layout.
\<close>

lemma init_run:
  "init 0 ex_activation ex_res ex_bias (start (reply_after 0 (1, 7) (1, 7))) =
     (Inr (),
      \<lparr>self = (CusparseLtLinear ex_weight 1 ex_uninit)\<lparr>dA := 7, dB := 7, dC := 7, dD := 300,
         d_valid := 7\<rparr>,
       dev = \<lparr>reply = reply_after 0 (1, 7) (1, 7),
         calls =
           [cudaDeviceGetAttribute cudaDevAttrComputeCapabilityMajor 0,
            cudaDeviceGetAttribute cudaDevAttrComputeCapabilityMinor 0,
            cudaMalloc 12, cudaMalloc 30, cudaMalloc 20, cudaMalloc 8,
            cudaMemcpy (Ptr 7) (Ptr 100) 12 cudaMemcpyHostToDevice,
            cudaMemcpy (Ptr 7) (Ptr 200) 30 cudaMemcpyHostToDevice,
            cudaMemcpy (Ptr 7) (New_half_array 10) 20 cudaMemcpyHostToDevice,
            cusparseLtInit,
            cusparseLtStructuredDescriptorInit weight_descriptor 2 3 3 16 CUDA_R_16F
              CUSPARSE_ORDER_ROW CUSPARSELT_SPARSITY_50_PERCENT,
            cusparseLtDenseDescriptorInit activation_descriptor 3 5 5 16 CUDA_R_16F
              CUSPARSE_ORDER_ROW,
            cusparseLtDenseDescriptorInit matC 2 5 5 16 CUDA_R_16F CUSPARSE_ORDER_ROW,
            cusparseLtMatmulDescriptorInit CUSPARSE_OPERATION_NON_TRANSPOSE
              CUSPARSE_OPERATION_NON_TRANSPOSE weight_descriptor activation_descriptor
              matC matC CUSPARSE_COMPUTE_16F,
            cusparseLtMatmulAlgSelectionInit CUSPARSELT_MATMUL_ALG_DEFAULT,
            cusparseLtMatDescSetAttribute weight_descriptor CUSPARSELT_MAT_NUM_BATCHES 1 4,
            cusparseLtMatDescSetAttribute activation_descriptor CUSPARSELT_MAT_NUM_BATCHES 1 8,
            cusparseLtMatDescSetAttribute matC CUSPARSELT_MAT_NUM_BATCHES 1 8,
            cusparseLtMatDescSetAttribute weight_descriptor CUSPARSELT_MAT_BATCH_STRIDE 6 8,
            cusparseLtMatDescSetAttribute activation_descriptor CUSPARSELT_MAT_BATCH_STRIDE 15 8,
            cusparseLtMatDescSetAttribute matC CUSPARSELT_MAT_BATCH_STRIDE 10 8,
            cusparseLtMatmulDescriptorInit CUSPARSE_OPERATION_NON_TRANSPOSE
              CUSPARSE_OPERATION_NON_TRANSPOSE weight_descriptor activation_descriptor
              matC matC CUSPARSE_COMPUTE_16F,
            cudaMalloc 8,
            cudaMemcpy (Ptr 7) (Ptr 400) 8 cudaMemcpyHostToDevice,
            cusparseLtMatmulDescSetAttribute CUSPARSELT_MATMUL_BIAS_POINTER 7 8,
            cusparseLtMatmulAlgSetAttribute CUSPARSELT_MATMUL_ALG_CONFIG_ID 0 4,
            cusparseLtMatmulGetWorkspace,
            cusparseLtMatmulPlanInit 7],
         live = []\<rparr>\<rparr>)"
  by (simp add: init_def prog_defs ex_defs sizeof_Half_def sizeof_pointer_def sizeof_float_def
      sizeof_int_def sizeof_int64_def matrix_order_def matrix_type_def compute_type_def)

text \<open>
  The same run on the scenario of the spec, weight 128 x 256 and activation 256 x 64: the
  source reads \<open>n\<close> from dimension 0 of the activation, so \<open>n = 256\<close>.
\<close>

lemma spec_scenario_run:
  "init 0 spec_activation spec_res spec_bias (spec_start (reply_after 0 (1, 7) (1, 7))) =
     (Inr (),
      \<lparr>self = (CusparseLtLinear spec_weight 1 ex_uninit)\<lparr>dA := 7, dB := 7, dC := 7, dD := 300,
         d_valid := 7\<rparr>,
       dev = \<lparr>reply = reply_after 0 (1, 7) (1, 7),
         calls =
           [cudaDeviceGetAttribute cudaDevAttrComputeCapabilityMajor 0,
            cudaDeviceGetAttribute cudaDevAttrComputeCapabilityMinor 0,
            cudaMalloc 65536, cudaMalloc 131072, cudaMalloc 65536, cudaMalloc 8,
            cudaMemcpy (Ptr 7) (Ptr 100) 65536 cudaMemcpyHostToDevice,
            cudaMemcpy (Ptr 7) (Ptr 200) 131072 cudaMemcpyHostToDevice,
            cudaMemcpy (Ptr 7) (New_half_array 32768) 65536 cudaMemcpyHostToDevice,
            cusparseLtInit,
            cusparseLtStructuredDescriptorInit weight_descriptor 128 256 256 16 CUDA_R_16F
              CUSPARSE_ORDER_ROW CUSPARSELT_SPARSITY_50_PERCENT,
            cusparseLtDenseDescriptorInit activation_descriptor 256 256 256 16 CUDA_R_16F
              CUSPARSE_ORDER_ROW,
            cusparseLtDenseDescriptorInit matC 128 256 256 16 CUDA_R_16F CUSPARSE_ORDER_ROW,
            cusparseLtMatmulDescriptorInit CUSPARSE_OPERATION_NON_TRANSPOSE
              CUSPARSE_OPERATION_NON_TRANSPOSE weight_descriptor activation_descriptor
              matC matC CUSPARSE_COMPUTE_16F,
            cusparseLtMatmulAlgSelectionInit CUSPARSELT_MATMUL_ALG_DEFAULT,
            cusparseLtMatDescSetAttribute weight_descriptor CUSPARSELT_MAT_NUM_BATCHES 1 4,
            cusparseLtMatDescSetAttribute activation_descriptor CUSPARSELT_MAT_NUM_BATCHES 1 8,
            cusparseLtMatDescSetAttribute matC CUSPARSELT_MAT_NUM_BATCHES 1 8,
            cusparseLtMatDescSetAttribute weight_descriptor CUSPARSELT_MAT_BATCH_STRIDE 32768 8,
            cusparseLtMatDescSetAttribute activation_descriptor CUSPARSELT_MAT_BATCH_STRIDE
              65536 8,
            cusparseLtMatDescSetAttribute matC CUSPARSELT_MAT_BATCH_STRIDE 32768 8,
            cusparseLtMatmulDescriptorInit CUSPARSE_OPERATION_NON_TRANSPOSE
              CUSPARSE_OPERATION_NON_TRANSPOSE weight_descriptor activation_descriptor
              matC matC CUSPARSE_COMPUTE_16F,
            cudaMalloc 512,
            cudaMemcpy (Ptr 7) (Ptr 400) 512 cudaMemcpyHostToDevice,
            cusparseLtMatmulDescSetAttribute CUSPARSELT_MATMUL_BIAS_POINTER 7 8,
            cusparseLtMatmulAlgSetAttribute CUSPARSELT_MATMUL_ALG_CONFIG_ID 0 4,
            cusparseLtMatmulGetWorkspace,
            cusparseLtMatmulPlanInit 7],
         live = []\<rparr>\<rparr>)"
  by (simp add: init_def prog_defs ex_defs spec_weight_def spec_activation_def spec_res_def
      spec_bias_def spec_start_def sizeof_pointer_def sizeof_float_def
      sizeof_int_def sizeof_int64_def matrix_order_def matrix_type_def compute_type_def)

subsection \<open>Weakest preconditions\<close>

lemma wp_bind: "wp (bind_p m f) Q E s = wp m (\<lambda>x. wp (f x) Q E) E s"
  by (simp add: wp_def bind_p_def split: prod.splits sum.splits)

lemma wp_pure:
  "wp (return x) Q E s = Q x s"
  "wp (raise e) Q E s = E e"
  "wp (member g) Q E s = Q (g (self s)) s"
  "wp (TORCH_CHECK c e) P E s = (if c then P () s else E e)"
  "wp (capability_gate M N) P E s =
     (if \<not> (M = 8 \<and> N = 0) \<and> \<not> (M = 8 \<and> N = 6) then P () s else E (DeviceUnsupported M N))"
  "wp (\<lambda>s. (Inr y, h s)) R E s = R y (h s)"
  by (simp_all add: wp_def prog_defs)

lemma wp_lift: "wp (lift r) Q E s = (case r of Inl e \<Rightarrow> E e | Inr x \<Rightarrow> Q x s)"
  by (cases r) (simp_all add: wp_def prog_defs)

lemma wp_invoke:
  "wp (invoke c) Q E s =
     Q (reply (dev s) (length (calls (dev s))))
       (s\<lparr>dev := (dev s)\<lparr>calls := calls (dev s) @ [c],
          live := effect c (reply (dev s) (length (calls (dev s)))) (live (dev s))\<rparr>\<rparr>)"
  by (simp add: wp_def invoke_def Let_def)

lemma wp_invoke_into:
  "wp (invoke_into upd c) Q E s =
     Q (reply (dev s) (length (calls (dev s))))
       (s\<lparr>dev := (dev s)\<lparr>calls := calls (dev s) @ [c],
          live := effect c (reply (dev s) (length (calls (dev s)))) (live (dev s))\<rparr>,
         self := upd (snd (reply (dev s) (length (calls (dev s))))) (self s)\<rparr>)"
  by (simp add: wp_def invoke_into_def bind_p_def invoke_def Let_def)

lemma wp_CHECK:
  "wp (CHECK_CUDA func) Q E s =
     wp func (\<lambda>r. if fst r \<noteq> 0 then Q (snd r) else (\<lambda>s. E (DeviceError (fst r)))) E s"
  "wp (CHECK_CUSPARSE func) Q E s =
     wp func (\<lambda>r. if fst r \<noteq> 0 then Q (snd r) else (\<lambda>s. E (LibraryError (fst r)))) E s"
  by (auto simp: wp_def prog_defs split_def split: sum.splits prod.splits)

lemmas wp_rules = wp_bind wp_pure wp_lift wp_invoke wp_invoke_into wp_CHECK

lemma wp_returns: "wp m Q E s \<Longrightarrow> fst (m s) = Inr x \<Longrightarrow> Q x (snd (m s))"
  by (simp add: wp_def)


text \<open>
  What a run of \<^verbatim>\<open>init\<close> that returns has done: the members it has written, the
  calls it has added to the history, and no change to the live buffers.
\<close>

lemma init_returns_wp:
  "wp (init g a r b)
     (\<lambda>_ s'.
        self s' = (self s)\<lparr>dA := snd (reply (dev s) (length (calls (dev s)) + 2)),
           dB := snd (reply (dev s) (length (calls (dev s)) + 3)),
           dC := snd (reply (dev s) (length (calls (dev s)) + 4)),
           d_valid := snd (reply (dev s) (length (calls (dev s)) + 5)),
           dD := data r\<rparr>
      \<and> live (dev s') = live (dev s)
      \<and> reply (dev s') = reply (dev s)
      \<and> calls (dev s') = calls (dev s) @
          (let L = init_layout (sizes (weight (self s)) ! 0) (sizes (weight (self s)) ! 1)
                 (sizes a ! 0) (num_batches (self s)) (op_weight (self s)) (op_activation (self s));
               n = length (calls (dev s))
           in [cudaDeviceGetAttribute cudaDevAttrComputeCapabilityMajor 0,
               cudaDeviceGetAttribute cudaDevAttrComputeCapabilityMinor 0,
               cudaMalloc (A_size_bytes L),
               cudaMalloc (B_size_bytes L),
               cudaMalloc (C_size_bytes L),
               cudaMalloc sizeof_pointer,
               cudaMemcpy (Ptr (snd (reply (dev s) (n + 2)))) (Ptr (data (weight (self s))))
                 (A_size_bytes L) cudaMemcpyHostToDevice,
               cudaMemcpy (Ptr (snd (reply (dev s) (n + 3)))) (Ptr (data a))
                 (B_size_bytes L) cudaMemcpyHostToDevice,
               cudaMemcpy (Ptr (snd (reply (dev s) (n + 4)))) (New_half_array (C_size L))
                 (C_size_bytes L) cudaMemcpyHostToDevice,
               cusparseLtInit,
               cusparseLtStructuredDescriptorInit weight_descriptor (num_A_rows L) (num_A_cols L)
                 (lda L) (alignment L) matrix_type matrix_order CUSPARSELT_SPARSITY_50_PERCENT,
               cusparseLtDenseDescriptorInit activation_descriptor (num_B_rows L) (num_B_cols L)
                 (ldb L) (alignment L) matrix_type matrix_order,
               cusparseLtDenseDescriptorInit matC (num_C_rows L) (num_C_cols L)
                 (ldc L) (alignment L) matrix_type matrix_order,
               cusparseLtMatmulDescriptorInit (op_weight (self s)) (op_activation (self s))
                 weight_descriptor activation_descriptor matC matC compute_type,
               cusparseLtMatmulAlgSelectionInit CUSPARSELT_MATMUL_ALG_DEFAULT,
               cusparseLtMatDescSetAttribute weight_descriptor CUSPARSELT_MAT_NUM_BATCHES
                 (num_batches (self s)) sizeof_int,
               cusparseLtMatDescSetAttribute activation_descriptor CUSPARSELT_MAT_NUM_BATCHES
                 (num_batches (self s)) sizeof_int64,
               cusparseLtMatDescSetAttribute matC CUSPARSELT_MAT_NUM_BATCHES
                 (num_batches (self s)) sizeof_int64,
               cusparseLtMatDescSetAttribute weight_descriptor CUSPARSELT_MAT_BATCH_STRIDE
                 (batch_strideA L) sizeof_int64,
               cusparseLtMatDescSetAttribute activation_descriptor CUSPARSELT_MAT_BATCH_STRIDE
                 (batch_strideB L) sizeof_int64,
               cusparseLtMatDescSetAttribute matC CUSPARSELT_MAT_BATCH_STRIDE
                 (batch_strideC L) sizeof_int64,
               cusparseLtMatmulDescriptorInit (op_weight (self s)) (op_activation (self s))
                 weight_descriptor activation_descriptor matC matC compute_type,
               cudaMalloc (sizes (weight (self s)) ! 0 * sizeof_float),
               cudaMemcpy (Ptr (snd (reply (dev s) (n + 22)))) (Ptr (data b))
                 (sizes (weight (self s)) ! 0 * sizeof_float) cudaMemcpyHostToDevice,
               cusparseLtMatmulDescSetAttribute CUSPARSELT_MATMUL_BIAS_POINTER
                 (snd (reply (dev s) (n + 22))) sizeof_pointer,
               cusparseLtMatmulAlgSetAttribute CUSPARSELT_MATMUL_ALG_CONFIG_ID 0 sizeof_int,
               cusparseLtMatmulGetWorkspace,
               cusparseLtMatmulPlanInit (word_of_int (snd (reply (dev s) (n + 26))))])) (\<lambda>e. True) s"
  unfolding init_def Let_def
  by (simp add: wp_rules Tensor_size_def data_ptr_def new_half_array_def cudaSuccess_def
      eval_nat_numeral)



subsection \<open>Two runs side by side\<close>

















subsection \<open>\<^verbatim>\<open>init\<close> up to its first allocation\<close>


section \<open>The claims\<close>

text \<open>
  C1. The claim: the capability check of \<^verbatim>\<open>init\<close> passes if and only if the detected
  capability is 8.0 or 8.6, and fails with \<open>DeviceUnsupported\<close> naming the capability
  otherwise. The code does the opposite. On a device of capability 8.0 whose queries
  succeed, \<^verbatim>\<open>init\<close> throws at the first query (the macro of C2); and the gate itself, given
  8.0 or 8.6, throws \<open>DeviceUnsupported\<close>, while it lets 7.5 pass.
\<close>

theorem capability_gate_rejects_allowlist:
  "fst (init 0 ex_activation ex_res ex_bias
          (start (reply_after 1 (cudaSuccess, 8) (cudaSuccess, 0)))) = Inl (DeviceError cudaSuccess)
   \<and> fst (init 0 ex_activation ex_res ex_bias (start (reply_after 1 (1, 8) (1, 0))))
        = Inl (DeviceUnsupported 8 0)
   \<and> fst (init 0 ex_activation ex_res ex_bias (start (reply_after 1 (1, 8) (1, 6))))
        = Inl (DeviceUnsupported 8 6)
   \<and> fst (capability_gate 8 0 s) = Inl (DeviceUnsupported 8 0)
   \<and> fst (capability_gate 8 6 s) = Inl (DeviceUnsupported 8 6)
   \<and> fst (capability_gate 7 5 s) = Inr ()"
  by (simp add: init_def prog_defs ex_defs)

text \<open>
  C2. The claim: the wrapper around every device and library call throws if and only if
  the call returns a status other than success. The code throws exactly when the call
  succeeds: whatever the call \<open>c\<close>, a reply of \<^verbatim>\<open>cudaSuccess\<close> makes \<^verbatim>\<open>CHECK_CUDA\<close> throw
  \<open>DeviceError\<close>, a reply of \<^verbatim>\<open>CUSPARSE_STATUS_SUCCESS\<close> makes \<^verbatim>\<open>CHECK_CUSPARSE\<close> throw
  \<open>LibraryError\<close>, and the error statuses 2 and 3 pass.
\<close>

theorem CHECK_raises_on_success:
  "fst (CHECK_CUDA (invoke c) (start (reply_after 0 (0, 0) (cudaSuccess, 0))))
       = Inl (DeviceError cudaSuccess)
   \<and> fst (CHECK_CUSPARSE (invoke c) (start (reply_after 0 (0, 0) (CUSPARSE_STATUS_SUCCESS, 0))))
       = Inl (LibraryError CUSPARSE_STATUS_SUCCESS)
   \<and> fst (CHECK_CUDA (invoke c) (start (reply_after 0 (0, 0) (2, 0)))) = Inr 0
   \<and> fst (CHECK_CUSPARSE (invoke c) (start (reply_after 0 (0, 0) (3, 0)))) = Inr 0"
  by (simp add: prog_defs ex_defs)

text \<open>The same for every state: the outcome of the wrapper as a function of the status.\<close>

lemma CHECK_CUDA_outcome:
  "fst (CHECK_CUDA (invoke c) s) =
     (if fst (reply (dev s) (length (calls (dev s)))) = cudaSuccess
      then Inl (DeviceError cudaSuccess)
      else Inr (snd (reply (dev s) (length (calls (dev s))))))"
  by (simp add: prog_defs split_def)

lemma CHECK_CUSPARSE_outcome:
  "fst (CHECK_CUSPARSE (invoke c) s) =
     (if fst (reply (dev s) (length (calls (dev s)))) = CUSPARSE_STATUS_SUCCESS
      then Inl (LibraryError CUSPARSE_STATUS_SUCCESS)
      else Inr (snd (reply (dev s) (length (calls (dev s))))))"
  by (simp add: prog_defs split_def)




text \<open>
  C4. The claim: for a weight of shape \<open>m\<close> x \<open>k\<close> and an activation of shape \<open>k\<close> x \<open>n\<close>,
  \<^verbatim>\<open>init\<close> describes the weight as \<open>m\<close> x \<open>k\<close>, the activation as \<open>k\<close> x \<open>n\<close> and the
  output as \<open>m\<close> x \<open>n\<close> (none transposed), each with its column count as leading dimension
  and its rows times its columns as batch stride. The source takes \<open>n\<close> from
  \<^verbatim>\<open>activation.size(0)\<close> (line 82), which for an activation of shape \<open>k\<close> x \<open>n\<close> is \<open>k\<close>,
  under the comment "k & n are for activation" (line 78). So whenever \<^verbatim>\<open>init\<close> returns
  on such a weight and such an activation, neither transposed, it has made 28 calls, of
  which the three descriptor initialisations give the weight as \<open>m\<close> x \<open>k\<close> with leading
  dimension \<open>k\<close>, the activation as \<open>k\<close> x \<open>k\<close> with leading dimension \<open>k\<close> and the output
  as \<open>m\<close> x \<open>k\<close> with leading dimension \<open>k\<close>, and the three batch strides are \<open>m * k\<close>,
  \<open>k * k\<close> and \<open>m * k\<close>: the second dimension of the activation reaches none of them.
\<close>

theorem init_takes_n_from_dimension_0:
  "sizes (weight (self s)) = [m, k] \<and> sizes a = [k, n]
   \<and> op_weight (self s) = CUSPARSE_OPERATION_NON_TRANSPOSE
   \<and> op_activation (self s) = CUSPARSE_OPERATION_NON_TRANSPOSE
   \<and> fst (init g a res b s) = Inr () \<longrightarrow>
     calls_since (length (calls (dev s))) (snd (init g a res b s)) ! 10 =
       cusparseLtStructuredDescriptorInit weight_descriptor m k k 16 CUDA_R_16F
         CUSPARSE_ORDER_ROW CUSPARSELT_SPARSITY_50_PERCENT
   \<and> calls_since (length (calls (dev s))) (snd (init g a res b s)) ! 11 =
       cusparseLtDenseDescriptorInit activation_descriptor k k k 16 CUDA_R_16F
         CUSPARSE_ORDER_ROW
   \<and> calls_since (length (calls (dev s))) (snd (init g a res b s)) ! 12 =
       cusparseLtDenseDescriptorInit matC m k k 16 CUDA_R_16F CUSPARSE_ORDER_ROW
   \<and> calls_since (length (calls (dev s))) (snd (init g a res b s)) ! 18 =
       cusparseLtMatDescSetAttribute weight_descriptor CUSPARSELT_MAT_BATCH_STRIDE (m * k)
         sizeof_int64
   \<and> calls_since (length (calls (dev s))) (snd (init g a res b s)) ! 19 =
       cusparseLtMatDescSetAttribute activation_descriptor CUSPARSELT_MAT_BATCH_STRIDE (k * k)
         sizeof_int64
   \<and> calls_since (length (calls (dev s))) (snd (init g a res b s)) ! 20 =
       cusparseLtMatDescSetAttribute matC CUSPARSELT_MAT_BATCH_STRIDE (m * k) sizeof_int64
   \<and> length (calls_since (length (calls (dev s))) (snd (init g a res b s))) = 28"
proof (intro impI)
  assume h: "sizes (weight (self s)) = [m, k] \<and> sizes a = [k, n]
   \<and> op_weight (self s) = CUSPARSE_OPERATION_NON_TRANSPOSE
   \<and> op_activation (self s) = CUSPARSE_OPERATION_NON_TRANSPOSE
   \<and> fst (init g a res b s) = Inr ()"
  then have ret: "fst (init g a res b s) = Inr ()"
    by simp
  note run = wp_returns [OF init_returns_wp ret]
  from run h
  show "calls_since (length (calls (dev s))) (snd (init g a res b s)) ! 10 =
       cusparseLtStructuredDescriptorInit weight_descriptor m k k 16 CUDA_R_16F
         CUSPARSE_ORDER_ROW CUSPARSELT_SPARSITY_50_PERCENT
   \<and> calls_since (length (calls (dev s))) (snd (init g a res b s)) ! 11 =
       cusparseLtDenseDescriptorInit activation_descriptor k k k 16 CUDA_R_16F
         CUSPARSE_ORDER_ROW
   \<and> calls_since (length (calls (dev s))) (snd (init g a res b s)) ! 12 =
       cusparseLtDenseDescriptorInit matC m k k 16 CUDA_R_16F CUSPARSE_ORDER_ROW
   \<and> calls_since (length (calls (dev s))) (snd (init g a res b s)) ! 18 =
       cusparseLtMatDescSetAttribute weight_descriptor CUSPARSELT_MAT_BATCH_STRIDE (m * k)
         sizeof_int64
   \<and> calls_since (length (calls (dev s))) (snd (init g a res b s)) ! 19 =
       cusparseLtMatDescSetAttribute activation_descriptor CUSPARSELT_MAT_BATCH_STRIDE (k * k)
         sizeof_int64
   \<and> calls_since (length (calls (dev s))) (snd (init g a res b s)) ! 20 =
       cusparseLtMatDescSetAttribute matC CUSPARSELT_MAT_BATCH_STRIDE (m * k) sizeof_int64
   \<and> length (calls_since (length (calls (dev s))) (snd (init g a res b s))) = 28"
    by (simp add: calls_since_def Let_def init_layout_def matrix_order_def matrix_type_def)
qed

text \<open>
  On the scenario of the spec, weight 128 x 256 and activation 256 x 64: \<^verbatim>\<open>init\<close>
  describes the activation as 256 x 256 and the output as 128 x 256, with the batch
  strides 65536 and 32768, where the claim has 256 x 64 and 128 x 64, with 16384 and 8192.
\<close>

theorem init_takes_n_from_dimension_0_witness:
  "sizes spec_weight = [128, 256] \<and> sizes spec_activation = [256, 64]
   \<and> fst (init 0 spec_activation spec_res spec_bias
        (spec_start (reply_after 0 (1, 7) (1, 7)))) = Inr ()
   \<and> calls_since 0 (snd (init 0 spec_activation spec_res spec_bias
        (spec_start (reply_after 0 (1, 7) (1, 7))))) ! 11 =
       cusparseLtDenseDescriptorInit activation_descriptor 256 256 256 16 CUDA_R_16F
         CUSPARSE_ORDER_ROW
   \<and> calls_since 0 (snd (init 0 spec_activation spec_res spec_bias
        (spec_start (reply_after 0 (1, 7) (1, 7))))) ! 12 =
       cusparseLtDenseDescriptorInit matC 128 256 256 16 CUDA_R_16F CUSPARSE_ORDER_ROW
   \<and> calls_since 0 (snd (init 0 spec_activation spec_res spec_bias
        (spec_start (reply_after 0 (1, 7) (1, 7))))) ! 19 =
       cusparseLtMatDescSetAttribute activation_descriptor CUSPARSELT_MAT_BATCH_STRIDE 65536 8
   \<and> calls_since 0 (snd (init 0 spec_activation spec_res spec_bias
        (spec_start (reply_after 0 (1, 7) (1, 7))))) ! 20 =
       cusparseLtMatDescSetAttribute matC CUSPARSELT_MAT_BATCH_STRIDE 32768 8"
proof -
  let ?s = "spec_start (reply_after 0 (1, 7) (1, 7))"
  have h: "sizes (weight (self ?s)) = [128, 256] \<and> sizes spec_activation = [256, 64]
      \<and> op_weight (self ?s) = CUSPARSE_OPERATION_NON_TRANSPOSE
      \<and> op_activation (self ?s) = CUSPARSE_OPERATION_NON_TRANSPOSE
      \<and> fst (init 0 spec_activation spec_res spec_bias ?s) = Inr ()"
    by (simp add: spec_scenario_run)
      (simp add: spec_start_def CusparseLtLinear_def spec_weight_def spec_activation_def)
  have st: "length (calls (dev ?s)) = 0" "sizes spec_weight = [128, 256]"
    by (simp_all add: spec_start_def spec_weight_def)
  from init_takes_n_from_dimension_0 [where s = ?s and m = 128 and k = 256 and n = 64
      and a = spec_activation and g = 0 and res = spec_res and b = spec_bias] h
  show ?thesis
    unfolding st by (simp add: sizeof_int64_def)
qed

text \<open>
  C5, amended. The claim: \<^verbatim>\<open>masked_mm\<close> calls the matmul with multiply-scale 1,
  accumulate-scale 0, a null workspace and no streams, and passes one single buffer, the
  alias of the caller's output storage, as both the prior output and the destination. The
  code passes two members, \<^verbatim>\<open>dC\<close> as the prior output and \<^verbatim>\<open>dD\<close> as the destination,
  which \<^verbatim>\<open>init\<close> sets apart: whenever \<^verbatim>\<open>init\<close> returns, \<^verbatim>\<open>dD\<close> is the storage of the
  caller's output tensor (line 129), \<^verbatim>\<open>dC\<close> is what the fifth call of \<^verbatim>\<open>init\<close>, the
  \<^verbatim>\<open>cudaMalloc\<close> of line 127, has left in it, and the ninth call of \<^verbatim>\<open>init\<close> (line 133)
  is the copy of the zero-initialised host array of line 117 to that address. The two
  operands are one buffer only when that \<^verbatim>\<open>cudaMalloc\<close> has left the address of the
  caller's output storage in \<^verbatim>\<open>dC\<close>. The rest of the claim holds: \<^verbatim>\<open>masked_mm\<close> makes
  exactly one call, the matmul, with the scales 1 and 0, the compressed weight, the
  activation, a null workspace, a null stream array and a stream count of 0.
\<close>

theorem masked_mm_call:
  "calls (dev (snd (masked_mm s))) =
     calls (dev s) @ [cusparseLtMatmul 1 (dA_compressed (self s)) (dB (self s)) 0
        (dC (self s)) (dD (self s)) nullptr nullptr 0]
   \<and> (fst (init g a res b s) = Inr () \<longrightarrow>
        dD (self (snd (init g a res b s))) = data res
      \<and> dC (self (snd (init g a res b s))) = snd (reply (dev s) (length (calls (dev s)) + 4))
      \<and> is_cudaMalloc (calls_since (length (calls (dev s))) (snd (init g a res b s)) ! 4)
      \<and> (\<exists>n sz. calls_since (length (calls (dev s))) (snd (init g a res b s)) ! 8 =
            cudaMemcpy (Ptr (dC (self (snd (init g a res b s))))) (New_half_array n) sz
              cudaMemcpyHostToDevice))"
proof (intro conjI impI)
  show "calls (dev (snd (masked_mm s))) =
     calls (dev s) @ [cusparseLtMatmul 1 (dA_compressed (self s)) (dB (self s)) 0
        (dC (self s)) (dD (self s)) nullptr nullptr 0]"
    by (simp add: masked_mm_def prog_defs split_def)
next
  assume ret: "fst (init g a res b s) = Inr ()"
  note run = wp_returns [OF init_returns_wp ret]
  from run show "dD (self (snd (init g a res b s))) = data res"
    by simp
  from run show dC: "dC (self (snd (init g a res b s))) =
      snd (reply (dev s) (length (calls (dev s)) + 4))"
    by simp
  from run show "is_cudaMalloc (calls_since (length (calls (dev s))) (snd (init g a res b s)) ! 4)"
    by (simp add: calls_since_def Let_def)
  from run have "calls_since (length (calls (dev s))) (snd (init g a res b s)) ! 8 =
      cudaMemcpy (Ptr (snd (reply (dev s) (length (calls (dev s)) + 4))))
        (New_half_array (C_size (init_layout (sizes (weight (self s)) ! 0)
           (sizes (weight (self s)) ! 1) (sizes a ! 0) (num_batches (self s))
           (op_weight (self s)) (op_activation (self s)))))
        (C_size_bytes (init_layout (sizes (weight (self s)) ! 0)
           (sizes (weight (self s)) ! 1) (sizes a ! 0) (num_batches (self s))
           (op_weight (self s)) (op_activation (self s))))
        cudaMemcpyHostToDevice"
    by (simp add: calls_since_def Let_def)
  with dC show "\<exists>n sz. calls_since (length (calls (dev s))) (snd (init g a res b s)) ! 8 =
      cudaMemcpy (Ptr (dC (self (snd (init g a res b s))))) (New_half_array n) sz
        cudaMemcpyHostToDevice"
    by simp
qed

text \<open>
  A run of \<^verbatim>\<open>init\<close> that returns (every call returns the error status 1 and leaves 7 in
  its out-parameter): \<^verbatim>\<open>dD\<close> is the storage 300 of the output tensor, \<^verbatim>\<open>dC\<close> is the 7
  that the fifth call, a \<^verbatim>\<open>cudaMalloc\<close>, has left.
\<close>

theorem masked_mm_call_witness:
  "fst (init 0 ex_activation ex_res ex_bias (start (reply_after 0 (1, 7) (1, 7)))) = Inr ()
   \<and> dD (self (snd (init 0 ex_activation ex_res ex_bias (start (reply_after 0 (1, 7) (1, 7))))))
       = data ex_res
   \<and> dC (self (snd (init 0 ex_activation ex_res ex_bias (start (reply_after 0 (1, 7) (1, 7))))))
       = 7
   \<and> is_cudaMalloc (calls_since 0
        (snd (init 0 ex_activation ex_res ex_bias (start (reply_after 0 (1, 7) (1, 7))))) ! 4)"
proof -
  let ?s = "start (reply_after 0 (1, 7) (1, 7))"
  have ret: "fst (init 0 ex_activation ex_res ex_bias ?s) = Inr ()"
    by (simp add: init_run)
  have st: "length (calls (dev ?s)) = 0" "snd (reply (dev ?s) (0 + 4)) = 7"
    by (simp_all add: start_def reply_after_def)
  from masked_mm_call [where s = ?s and g = 0 and a = ex_activation and res = ex_res
      and b = ex_bias] ret
  show ?thesis
    unfolding st by blast
qed

text \<open>
  On a session whose \<^verbatim>\<open>dC\<close> is the device buffer 12288 and whose \<^verbatim>\<open>dD\<close> is the storage
  300 of the output tensor, the prior-output operand and the destination operand of the
  matmul are these two different buffers.
\<close>

theorem masked_mm_operands_counterexample:
  "calls (dev (snd (masked_mm ex_ready))) =
     [cusparseLtMatmul 1 16384 8192 0 12288 300 nullptr nullptr 0]
   \<and> dC (self ex_ready) = 12288 \<and> dD (self ex_ready) = data ex_res
   \<and> dC (self ex_ready) \<noteq> dD (self ex_ready)"
  by (simp add: masked_mm_def prog_defs ex_defs ex_ready_def split_def)

text \<open>
  C6, amended. The claim: teardown releases the handle, every descriptor, the plan and
  every device buffer exactly once, so that a session that was constructed, initialised
  and destroyed leaks nothing. The struct has no destructor and the source calls no
  destroy function: destroying the session makes no call on the device or the library
  and releases nothing. After \<^verbatim>\<open>init\<close> and the destruction, the live device buffers are
  those that were live before \<^verbatim>\<open>init\<close> followed by every buffer that a \<^verbatim>\<open>cudaMalloc\<close> of
  \<^verbatim>\<open>init\<close> returned with success.
\<close>

theorem teardown_releases_nothing:
  "calls (destroy (snd (init g a r b s))) = calls (dev (snd (init g a r b s)))
   \<and> live (destroy (snd (init g a r b s))) =
       live (dev s) @ allocated_since (length (calls (dev s))) (dev (snd (init g a r b s)))"
  using init_leaks [of "length (calls (dev s))" "live (dev s)" g a r b] leaks_refl [of s]
  by (simp add: preserves_def leaks_def destroy_def)

text \<open>
  A session is constructed, \<^verbatim>\<open>init\<close> allocates the weight buffer 4096 (and then throws),
  the session is destroyed: the buffer is still allocated.
\<close>

theorem teardown_leak_counterexample:
  "live (dev (start (reply_after 2 (1, 7) (cudaSuccess, 4096)))) = []
   \<and> dA (self (snd (init 0 ex_activation ex_res ex_bias
        (start (reply_after 2 (1, 7) (cudaSuccess, 4096)))))) = 4096
   \<and> live (destroy (snd (init 0 ex_activation ex_res ex_bias
        (start (reply_after 2 (1, 7) (cudaSuccess, 4096)))))) = [4096]"
  by (simp add: init_def prog_defs ex_defs destroy_def split_def)

text \<open>
  C7. The claim: \<^verbatim>\<open>prune\<close> fails with \<open>PruneValidationError\<close> if and only if the flag
  copied back is not zero, and completes without error when it is zero. On a device
  whose calls all succeed the code never gets to the flag: the pruning call succeeds,
  its macro throws (the defect of C2), and \<^verbatim>\<open>prune\<close> fails with \<open>LibraryError\<close> whether the
  flag would be 0 or 1.
\<close>

theorem prune_raises_on_success:
  "fst (prune (start (reply_after 0 (0, 0) (CUSPARSE_STATUS_SUCCESS, 0))))
      = Inl (LibraryError CUSPARSE_STATUS_SUCCESS)
   \<and> fst (prune (start (reply_after 0 (0, 0) (CUSPARSE_STATUS_SUCCESS, 1))))
      = Inl (LibraryError CUSPARSE_STATUS_SUCCESS)
   \<and> calls (dev (snd (prune (start (reply_after 0 (0, 0) (CUSPARSE_STATUS_SUCCESS, 1))))))
      = [cusparseLtSpMMAPrune2 weight_descriptor 1 CUSPARSE_OPERATION_NON_TRANSPOSE 0 0
           CUSPARSELT_PRUNE_SPMMA_STRIP nullptr]"
  by (simp add: prune_def prog_defs ex_defs split_def)

text \<open>
  C8. In \<^verbatim>\<open>init\<close> the capability check comes before every allocation of a device buffer
  and every creation of a descriptor: whenever the calls that a run of \<^verbatim>\<open>init\<close> makes
  contain a \<^verbatim>\<open>cudaMalloc\<close> or a descriptor initialisation, the first two calls of the run
  are the queries of the major and of the minor capability (neither is an allocation or
  a descriptor call), and the gate has passed on the two values they left.
\<close>

theorem capability_check_first:
  "calls (dev (snd (init g a r b s))) =
      calls (dev s) @ calls_since (length (calls (dev s))) (snd (init g a r b s))
   \<and> ((\<exists>c\<in>set (calls_since (length (calls (dev s))) (snd (init g a r b s))).
          is_cudaMalloc c \<or> is_descriptor_init c) \<longrightarrow>
        take 2 (calls_since (length (calls (dev s))) (snd (init g a r b s))) =
          [cudaDeviceGetAttribute cudaDevAttrComputeCapabilityMajor 0,
           cudaDeviceGetAttribute cudaDevAttrComputeCapabilityMinor 0]
        \<and> fst (capability_gate (snd (reply (dev s) (length (calls (dev s)))))
             (snd (reply (dev s) (Suc (length (calls (dev s)))))) s) = Inr ())"
proof -
  let ?q1 = "cudaDeviceGetAttribute cudaDevAttrComputeCapabilityMajor 0"
  let ?q2 = "cudaDeviceGetAttribute cudaDevAttrComputeCapabilityMinor 0"
  let ?tr = "calls_since (length (calls (dev s))) (snd (init g a r b s))"
  let ?pass = "fst (capability_gate (snd (reply (dev s) (length (calls (dev s)))))
             (snd (reply (dev s) (Suc (length (calls (dev s)))))) s) = Inr ()"
  obtain tr where eq: "calls (dev (snd (init g a r b s))) = calls (dev s) @ ?q1 # tr"
    and shape: "tr = [] \<or> (\<exists>tr'. tr = ?q2 # tr' \<and> (tr' = [] \<or> ?pass))"
    using init_shape [of g a r b s] by blast
  have tr: "?tr = ?q1 # tr"
    unfolding calls_since_def eq by simp
  have first: "calls (dev (snd (init g a r b s))) = calls (dev s) @ ?tr"
    unfolding tr by (rule eq)
  have later: "take 2 ?tr = [?q1, ?q2] \<and> ?pass"
    if "\<exists>c\<in>set ?tr. is_cudaMalloc c \<or> is_descriptor_init c"
    using that unfolding tr by (intro queries_then_rest [OF shape]) simp_all
  from first later show ?thesis
    by blast
qed

theorem capability_check_first_witness:
  "(\<exists>c\<in>set (calls_since 0 (snd (init 0 ex_activation ex_res ex_bias
        (start (reply_after 2 (1, 7) (cudaSuccess, 4096)))))). is_cudaMalloc c)
   \<and> take 2 (calls_since 0 (snd (init 0 ex_activation ex_res ex_bias
        (start (reply_after 2 (1, 7) (cudaSuccess, 4096)))))) =
       [cudaDeviceGetAttribute cudaDevAttrComputeCapabilityMajor 0,
        cudaDeviceGetAttribute cudaDevAttrComputeCapabilityMinor 0]
   \<and> fst (capability_gate 7 7 (start (reply_after 2 (1, 7) (cudaSuccess, 4096)))) = Inr ()"
proof -
  let ?s = "start (reply_after 2 (1, 7) (cudaSuccess, 4096))"
  have run: "calls_since 0 (snd (init 0 ex_activation ex_res ex_bias ?s)) =
     [cudaDeviceGetAttribute cudaDevAttrComputeCapabilityMajor 0,
      cudaDeviceGetAttribute cudaDevAttrComputeCapabilityMinor 0, cudaMalloc 12]"
    by (simp add: init_def prog_defs ex_defs calls_since_def sizeof_Half_def)
  have st: "length (calls (dev ?s)) = 0" "reply (dev ?s) 0 = (1, 7)" "reply (dev ?s) (Suc 0) = (1, 7)"
    by (simp_all add: ex_defs)
  have alloc: "\<exists>c\<in>set (calls_since 0 (snd (init 0 ex_activation ex_res ex_bias ?s))).
      is_cudaMalloc c \<or> is_descriptor_init c"
    unfolding run by simp
  from capability_check_first [of 0 ex_activation ex_res ex_bias ?s] alloc
  have "take 2 (calls_since 0 (snd (init 0 ex_activation ex_res ex_bias ?s))) =
       [cudaDeviceGetAttribute cudaDevAttrComputeCapabilityMajor 0,
        cudaDeviceGetAttribute cudaDevAttrComputeCapabilityMinor 0]
     \<and> fst (capability_gate 7 7 ?s) = Inr ()"
    unfolding st by simp
  moreover have "\<exists>c\<in>set (calls_since 0 (snd (init 0 ex_activation ex_res ex_bias ?s))).
      is_cudaMalloc c"
    unfolding run by simp
  ultimately show ?thesis
    by blast
qed

text \<open>
  C9, amended. The claim: every validity-flag buffer that the session allocates is freed
  after the validity check, whatever its outcome, and none outlives \<^verbatim>\<open>prune\<close>. The code
  has two such buffers. The scratch buffer \<^verbatim>\<open>is_valid\<close> of \<^verbatim>\<open>prune\<close> is handed to
  \<^verbatim>\<open>cudaFree\<close> after the flag is copied back and before the flag is tested: every run of
  \<^verbatim>\<open>prune\<close> that gets to the test, whether it then returns or fails with
  \<open>PruneValidationError\<close>, has made the five calls prune, allocate, check, copy back, free,
  in this order. The member \<^verbatim>\<open>d_valid\<close> that \<^verbatim>\<open>init\<close> allocates is never freed: a buffer
  that is live stays live through \<^verbatim>\<open>init\<close>, \<^verbatim>\<open>compress\<close>, \<^verbatim>\<open>masked_mm\<close> and the
  destruction of the session, and through \<^verbatim>\<open>prune\<close> unless it is the buffer that
  \<^verbatim>\<open>prune\<close> holds in its own \<^verbatim>\<open>is_valid\<close>.
\<close>

theorem validity_flag_buffers:
  "(fst (prune s) = Inr () \<or> fst (prune s) = Inl PruneValidationError \<longrightarrow>
      calls_since (length (calls (dev s))) (snd (prune s)) =
        [cusparseLtSpMMAPrune2 weight_descriptor 1 (op_weight (self s)) (dA (self s))
           (dA (self s)) CUSPARSELT_PRUNE_SPMMA_STRIP (stream (self s)),
         cudaMalloc sizeof_int,
         cusparseLtSpMMAPruneCheck2 weight_descriptor 1 (op_weight (self s)) (dA (self s))
           (snd (reply (dev s) (Suc (length (calls (dev s)))))) (stream (self s)),
         cudaMemcpy Addr_of_h_is_valid
           (Ptr (snd (reply (dev s) (Suc (length (calls (dev s))))))) sizeof_int
           cudaMemcpyDeviceToHost,
         cudaFree (snd (reply (dev s) (Suc (length (calls (dev s))))))])
   \<and> (x \<in> set (live (dev s)) \<longrightarrow>
        x \<in> set (live (dev (snd (init g a r b s))))
      \<and> x \<in> set (live (dev (snd (compress s))))
      \<and> x \<in> set (live (dev (snd (masked_mm s))))
      \<and> x \<in> set (live (destroy s))
      \<and> (x \<noteq> snd (reply (dev s) (Suc (length (calls (dev s))))) \<longrightarrow>
           x \<in> set (live (dev (snd (prune s))))))"
proof (intro conjI impI)
  assume "fst (prune s) = Inr () \<or> fst (prune s) = Inl PruneValidationError"
  then show "calls_since (length (calls (dev s))) (snd (prune s)) =
        [cusparseLtSpMMAPrune2 weight_descriptor 1 (op_weight (self s)) (dA (self s))
           (dA (self s)) CUSPARSELT_PRUNE_SPMMA_STRIP (stream (self s)),
         cudaMalloc sizeof_int,
         cusparseLtSpMMAPruneCheck2 weight_descriptor 1 (op_weight (self s)) (dA (self s))
           (snd (reply (dev s) (Suc (length (calls (dev s)))))) (stream (self s)),
         cudaMemcpy Addr_of_h_is_valid
           (Ptr (snd (reply (dev s) (Suc (length (calls (dev s))))))) sizeof_int
           cudaMemcpyDeviceToHost,
         cudaFree (snd (reply (dev s) (Suc (length (calls (dev s))))))]"
    by (rule prune_calls)
next
  assume x: "x \<in> set (live (dev s))"
  show "x \<in> set (live (dev (snd (init g a r b s))))"
    using init_leaks x by (rule leaks_keeps)
  show "x \<in> set (live (dev (snd (compress s))))"
    using compress_leaks x by (rule leaks_keeps)
  show "x \<in> set (live (dev (snd (masked_mm s))))"
    using masked_mm_leaks x by (rule leaks_keeps)
  show "x \<in> set (live (destroy s))"
    using x by (simp add: destroy_def)
  show "x \<in> set (live (dev (snd (prune s))))"
    if "x \<noteq> snd (reply (dev s) (Suc (length (calls (dev s)))))"
    using x that by (rule prune_keeps)
qed

text \<open>
  \<^verbatim>\<open>init\<close> has allocated \<^verbatim>\<open>d_valid\<close> at 4096 (and thrown); \<^verbatim>\<open>prune\<close> runs (and throws at
  its first call, which succeeds); the session is destroyed. The buffer of \<^verbatim>\<open>d_valid\<close> is
  still allocated.
\<close>

theorem d_valid_outlives_prune:
  "d_valid (self ex_leak) = 4096 \<and> live (dev ex_leak) = [4096]
   \<and> fst (prune ex_leak) = Inl (LibraryError CUSPARSE_STATUS_SUCCESS)
   \<and> live (dev (snd (prune ex_leak))) = [4096]
   \<and> live (destroy (snd (prune ex_leak))) = [4096]"
  unfolding ex_leak_eq
  by (simp add: prune_def prog_defs ex_defs split_def destroy_def)

theorem validity_flag_buffers_witness:
  "fst (prune (start (reply_after 0 (1, 0) (1, 0)))) = Inr ()
   \<and> calls_since 0 (snd (prune (start (reply_after 0 (1, 0) (1, 0))))) =
        [cusparseLtSpMMAPrune2 weight_descriptor 1 CUSPARSE_OPERATION_NON_TRANSPOSE 0 0
           CUSPARSELT_PRUNE_SPMMA_STRIP 0,
         cudaMalloc sizeof_int,
         cusparseLtSpMMAPruneCheck2 weight_descriptor 1 CUSPARSE_OPERATION_NON_TRANSPOSE 0 0 0,
         cudaMemcpy Addr_of_h_is_valid (Ptr 0) sizeof_int cudaMemcpyDeviceToHost,
         cudaFree 0]
   \<and> 4096 \<in> set (live (dev ex_ready))
   \<and> 4096 \<noteq> snd (reply (dev ex_ready) (Suc (length (calls (dev ex_ready)))))
   \<and> 4096 \<in> set (live (dev (snd (init 0 ex_activation ex_res ex_bias ex_ready))))
   \<and> 4096 \<in> set (live (dev (snd (compress ex_ready))))
   \<and> 4096 \<in> set (live (dev (snd (masked_mm ex_ready))))
   \<and> 4096 \<in> set (live (destroy ex_ready))
   \<and> 4096 \<in> set (live (dev (snd (prune ex_ready))))"
proof -
  let ?s = "start (reply_after 0 (1, 0) (1, 0))"
  have ret: "fst (prune ?s) = Inr ()"
    by (simp add: prune_def prog_defs ex_defs split_def)
  have st: "length (calls (dev ?s)) = 0" "reply (dev ?s) (Suc 0) = (1, 0)"
    "op_weight (self ?s) = CUSPARSE_OPERATION_NON_TRANSPOSE" "dA (self ?s) = 0"
    "stream (self ?s) = 0"
    by (simp_all add: ex_defs)
  have live: "4096 \<in> set (live (dev ex_ready))"
    and other: "4096 \<noteq> snd (reply (dev ex_ready) (Suc (length (calls (dev ex_ready)))))"
    by (simp_all add: ex_ready_def ex_defs)
  from validity_flag_buffers [of ?s 4096 0 ex_activation ex_res ex_bias] ret
  have "calls_since 0 (snd (prune ?s)) =
        [cusparseLtSpMMAPrune2 weight_descriptor 1 CUSPARSE_OPERATION_NON_TRANSPOSE 0 0
           CUSPARSELT_PRUNE_SPMMA_STRIP 0,
         cudaMalloc sizeof_int,
         cusparseLtSpMMAPruneCheck2 weight_descriptor 1 CUSPARSE_OPERATION_NON_TRANSPOSE 0 0 0,
         cudaMemcpy Addr_of_h_is_valid (Ptr 0) sizeof_int cudaMemcpyDeviceToHost,
         cudaFree 0]"
    unfolding st by simp
  moreover from validity_flag_buffers [of ex_ready 4096 0 ex_activation ex_res ex_bias] live other
  have "4096 \<in> set (live (dev (snd (init 0 ex_activation ex_res ex_bias ex_ready))))
      \<and> 4096 \<in> set (live (dev (snd (compress ex_ready))))
      \<and> 4096 \<in> set (live (dev (snd (masked_mm ex_ready))))
      \<and> 4096 \<in> set (live (destroy ex_ready))
      \<and> 4096 \<in> set (live (dev (snd (prune ex_ready))))"
    by blast
  ultimately show ?thesis
    using ret live other by blast
qed

text \<open>
  C10. \<^verbatim>\<open>init\<close> never reads its argument \<^verbatim>\<open>gpu_index\<close>: two calls that differ only in
  it are the same run, with the same outcome, the same session and the same calls on the
  device; and every capability query that \<^verbatim>\<open>init\<close> makes is about device 0.
\<close>

theorem init_ignores_gpu_index:
  "init g1 a r b s = init g2 a r b s
   \<and> (\<forall>c\<in>set (calls_since (length (calls (dev s))) (snd (init g1 a r b s))).
        \<forall>attr d. c = cudaDeviceGetAttribute attr d \<longrightarrow> d = 0)"
proof -
  have "since (dev s) (\<lambda>c. \<forall>attr d. c = cudaDeviceGetAttribute attr d \<longrightarrow> d = 0)
     (snd (init g1 a r b s))"
    using init_since [of "dev s" g1 a r b] since_refl [of s] by (simp add: preserves_def)
  then have "\<forall>c\<in>set (calls_since (length (calls (dev s))) (snd (init g1 a r b s))).
        \<forall>attr d. c = cudaDeviceGetAttribute attr d \<longrightarrow> d = 0"
    by (auto simp: since_def calls_since_def)
  moreover have "init g1 a r b s = init g2 a r b s"
    by (simp add: init_def)
  ultimately show ?thesis
    by blast
qed

theorem init_ignores_gpu_index_witness:
  "init 0 ex_activation ex_res ex_bias (start (reply_after 0 (1, 7) (1, 7))) =
     init 3 ex_activation ex_res ex_bias (start (reply_after 0 (1, 7) (1, 7)))
   \<and> cudaDeviceGetAttribute cudaDevAttrComputeCapabilityMajor 0
       \<in> set (calls_since 0 (snd (init 3 ex_activation ex_res ex_bias
            (start (reply_after 0 (1, 7) (1, 7))))))
   \<and> cudaDeviceGetAttribute cudaDevAttrComputeCapabilityMinor 0
       \<in> set (calls_since 0 (snd (init 3 ex_activation ex_res ex_bias
            (start (reply_after 0 (1, 7) (1, 7))))))"
proof -
  let ?s = "start (reply_after 0 (1, 7) (1, 7))"
  have same: "init 0 ex_activation ex_res ex_bias ?s = init 3 ex_activation ex_res ex_bias ?s"
    using init_ignores_gpu_index [of 0 ex_activation ex_res ex_bias ?s 3] by (rule conjunct1)
  have "take 2 (calls_since 0 (snd (init 0 ex_activation ex_res ex_bias ?s))) =
     [cudaDeviceGetAttribute cudaDevAttrComputeCapabilityMajor 0,
      cudaDeviceGetAttribute cudaDevAttrComputeCapabilityMinor 0]"
    by (simp add: init_def prog_defs ex_defs calls_since_def sizeof_Half_def sizeof_pointer_def
        sizeof_float_def)
  then have "set (take 2 (calls_since 0 (snd (init 3 ex_activation ex_res ex_bias ?s)))) =
     {cudaDeviceGetAttribute cudaDevAttrComputeCapabilityMajor 0,
      cudaDeviceGetAttribute cudaDevAttrComputeCapabilityMinor 0}"
    unfolding same by simp
  then show ?thesis
    using same set_take_subset [of 2 "calls_since 0 (snd (init 3 ex_activation ex_res ex_bias ?s))"]
    by auto
qed

end
